theory Spec2Isabelle
  imports Main "HOL-Library.Sublist"
begin

section \<open>Python values, exceptions and string helpers\<close>

text \<open>
  The exceptions that the modelled code can raise, one constructor per Python exception
  class. \<open>KeyError\<close>, \<open>IndexError\<close> and \<open>ValueError\<close> come from \<^verbatim>\<open>str.format\<close>,
  \<open>OSError\<close> (with its message) is raised by \<^verbatim>\<open>run_script\<close>, and \<open>FileNotFoundError\<close>
  is what \<^verbatim>\<open>subprocess.call\<close> raises when the interpreter itself cannot be spawned.
  \<open>NotModelled\<close> marks the parts of the format mini-language (conversions, format
  specifications, attribute and index access, explicit positional numbers) that no template
  of the source uses and that the model does not interpret.
\<close>

datatype py_error =
    KeyError string
  | IndexError
  | ValueError
  | OSError string
  | FileNotFoundError
  | NotModelled

text \<open>The name of the exception class of an error value (\<^verbatim>\<open>type(e).__name__\<close>).\<close>

fun exc_type :: "py_error \<Rightarrow> string" where
  "exc_type (KeyError k) = ''KeyError''"
| "exc_type IndexError = ''IndexError''"
| "exc_type ValueError = ''ValueError''"
| "exc_type (OSError m) = ''OSError''"
| "exc_type FileNotFoundError = ''FileNotFoundError''"
| "exc_type NotModelled = ''NotModelled''"

text \<open>\<^verbatim>\<open>sep.join(xs)\<close>.\<close>

fun join :: "string \<Rightarrow> string list \<Rightarrow> string" where
  "join sep [] = []"
| "join sep [x] = x"
| "join sep (x # y # ys) = x @ sep @ join sep (y # ys)"

text \<open>\<^verbatim>\<open>str(n)\<close> for an integer: decimal digits, with a leading minus sign when negative.\<close>

definition digit_char :: "nat \<Rightarrow> char" where
  "digit_char d = ''0123456789'' ! d"

function str_nat :: "nat \<Rightarrow> string" where
  "str_nat n = (if n < 10 then [digit_char n] else str_nat (n div 10) @ [digit_char (n mod 10)])"
  by pat_completeness auto
termination
  by (relation "measure id") auto

declare str_nat.simps [simp del]

definition str_int :: "int \<Rightarrow> string" where
  "str_int i = (if i < 0 then CHR ''-'' # str_nat (nat (- i)) else str_nat (nat i))"

section \<open>\<^verbatim>\<open>str.format\<close>\<close>

text \<open>
  The formatter scans the template once, left to right, as CPython does: literal text is
  copied, \<^verbatim>\<open>{{\<close> and \<^verbatim>\<open>}}\<close> are the escaped braces, \<^verbatim>\<open>{}\<close> takes the next positional
  argument and \<^verbatim>\<open>{name}\<close> the keyword argument \<open>name\<close>. A field is rendered as soon as
  its closing brace is read, so the first error in reading order is the one raised.
  Arguments are strings: every value the toolchain passes is a string, but the seed, which
  the caller converts with \<open>str_int\<close> (formatting an \<^verbatim>\<open>int\<close> with an empty format
  specification is \<^verbatim>\<open>str\<close>).
\<close>

datatype scan_state = Text | Opened | Closed | InField string

definition special_char :: "char \<Rightarrow> bool" where
  "special_char c = (c = CHR ''.'' \<or> c = CHR ''['' \<or> c = CHR '']'' \<or> c = CHR ''!'' \<or> c = CHR '':'')"

definition is_digit :: "char \<Rightarrow> bool" where
  "is_digit c = (c \<in> set ''0123456789'')"

definition emit :: "string \<Rightarrow> py_error + string \<Rightarrow> py_error + string" where
  "emit v r = (case r of Inl e \<Rightarrow> Inl e | Inr s \<Rightarrow> Inr (v @ s))"

text \<open>
  Looking up one replacement field: the empty name is the next automatically numbered
  positional argument, any other name is a keyword argument. A name made of digits would
  be an explicit position and is outside the model.
\<close>

definition get_field ::
  "string \<Rightarrow> nat \<Rightarrow> string list \<Rightarrow> (string \<times> string) list \<Rightarrow> py_error + (string \<times> nat)" where
  "get_field n i args kw =
     (if n = [] then (if i < length args then Inr (args ! i, Suc i) else Inl IndexError)
      else if list_all is_digit n then Inl NotModelled
      else (case map_of kw n of None \<Rightarrow> Inl (KeyError n) | Some v \<Rightarrow> Inr (v, i)))"

fun format_go ::
  "scan_state \<Rightarrow> nat \<Rightarrow> string list \<Rightarrow> (string \<times> string) list \<Rightarrow> string \<Rightarrow> py_error + string" where
  "format_go Text i args kw [] = Inr []"
| "format_go Opened i args kw [] = Inl ValueError"
| "format_go Closed i args kw [] = Inl ValueError"
| "format_go (InField n) i args kw [] = Inl ValueError"
| "format_go Text i args kw (c # cs) =
     (if c = CHR ''{'' then format_go Opened i args kw cs
      else if c = CHR ''}'' then format_go Closed i args kw cs
      else emit [c] (format_go Text i args kw cs))"
| "format_go Opened i args kw (c # cs) =
     (if c = CHR ''{'' then emit [c] (format_go Text i args kw cs)
      else if c = CHR ''}'' then
        (case get_field [] i args kw of
           Inl e \<Rightarrow> Inl e
         | Inr (v, j) \<Rightarrow> emit v (format_go Text j args kw cs))
      else if special_char c then Inl NotModelled
      else format_go (InField [c]) i args kw cs)"
| "format_go Closed i args kw (c # cs) =
     (if c = CHR ''}'' then emit [c] (format_go Text i args kw cs) else Inl ValueError)"
| "format_go (InField n) i args kw (c # cs) =
     (if c = CHR ''}'' then
        (case get_field n i args kw of
           Inl e \<Rightarrow> Inl e
         | Inr (v, j) \<Rightarrow> emit v (format_go Text j args kw cs))
      else if c = CHR ''{'' then Inl ValueError
      else if special_char c then Inl NotModelled
      else format_go (InField (n @ [c])) i args kw cs)"

text \<open>\<^verbatim>\<open>tmpl.format(*args, **kw)\<close>.\<close>

definition format_py :: "string \<Rightarrow> string list \<Rightarrow> (string \<times> string) list \<Rightarrow> py_error + string" where
  "format_py tmpl args kw = format_go Text 0 args kw tmpl"

section \<open>The platform and the toolchain object\<close>

text \<open>
  A registered source is the tuple \<^verbatim>\<open>(filename, language, library, *copy)\<close> that
  \<^verbatim>\<open>_yosys_import_sources\<close> unpacks; the platform carries the device name, the sources in
  registration order and the include paths.
\<close>

record source =
  filename :: string
  language :: string
  library :: string
  copy :: "bool list"

record platform =
  device :: string
  sources :: "source list"
  verilog_include_paths :: "string list"

text \<open>
  The fields of a \<^verbatim>\<open>LatticeOxideToolchain\<close> instance that the modelled methods read.
  \<open>build_name\<close> and \<open>platform\<close> are set by the generic toolchain before the methods run.
\<close>

record toolchain =
  yosys_template :: "string list"
  build_template :: "string list"
  build_name :: string
  nowidelut :: bool
  abc9 :: bool
  timingstrict :: bool
  ignoreloops :: bool
  seed :: int
  es_device :: bool
  platform :: platform

section \<open>Templates\<close>

definition yosys_template_const :: "string list" where
  \<open>yosys_template_const =
    [''verilog_defaults -push'',
     ''verilog_defaults -add -defer'',
     ''{read_files}'',
     ''verilog_defaults -pop'',
     ''attrmap -tocase keep -imap keep="true" keep=1 -imap keep="false" keep=0 -remove keep=0'',
     ''synth_nexus -flatten {nwl} {abc} -json {build_name}.json -top {build_name}'']\<close>

text \<open>
  In the second line the source continues the string literal with a backslash at the end
  of the line: the backslash and the line break vanish, the space before it and the four
  spaces of indentation of the next line stay.
\<close>

definition build_template_const :: "string list" where
  "build_template_const =
    [''yosys -l {build_name}.rpt {build_name}.ys'',
     ''nextpnr-nexus --json {build_name}.json --pdc {build_name}.pdc --fasm {build_name}.fasm     --device {device} {timefailarg} {ignoreloops} --seed {seed}'',
     ''prjoxide pack {build_name}.fasm {build_name}.bit'']"

text \<open>\<^verbatim>\<open>__init__\<close> binds the instance's templates to the class constants.\<close>

definition init :: "toolchain \<Rightarrow> toolchain" where
  "init self = self\<lparr>yosys_template := yosys_template_const, build_template := build_template_const\<rparr>"

text \<open>
  The assignments of \<^verbatim>\<open>build\<close>, in the order of its parameters. The call of
  \<^verbatim>\<open>GenericToolchain.build\<close> that follows them belongs to another module and is not
  modelled.
\<close>

definition build_options ::
  "bool \<Rightarrow> bool \<Rightarrow> bool \<Rightarrow> bool \<Rightarrow> int \<Rightarrow> bool \<Rightarrow> toolchain \<Rightarrow> toolchain" where
  "build_options nwl abc ts il sd es self =
     self\<lparr>nowidelut := nwl, abc9 := abc, timingstrict := ts, ignoreloops := il,
          seed := sd, es_device := es\<rparr>"

section \<open>Source import\<close>

fun includes_loop :: "string \<Rightarrow> string list \<Rightarrow> string" where
  "includes_loop includes [] = includes"
| "includes_loop includes (path # paths) = includes_loop (includes @ '' -I'' @ path) paths"

fun reads_loop :: "string \<Rightarrow> string list \<Rightarrow> source list \<Rightarrow> py_error + string list" where
  "reads_loop includes reads [] = Inr reads"
| "reads_loop includes reads (s # ss) =
     (let lang = (if language s = ''systemverilog'' then ''verilog -sv'' else language s) in
      case format_py ''read_{}{} {}'' [lang, includes, filename s] [] of
        Inl e \<Rightarrow> Inl e
      | Inr d \<Rightarrow> reads_loop includes (reads @ [d]) ss)"

text \<open>The list \<^verbatim>\<open>reads\<close> when the loop of \<^verbatim>\<open>_yosys_import_sources\<close> is over.\<close>

definition yosys_reads :: "toolchain \<Rightarrow> py_error + string list" where
  "yosys_reads self =
     reads_loop (includes_loop [] (verilog_include_paths (platform self))) [] (sources (platform self))"

definition yosys_import_sources :: "toolchain \<Rightarrow> py_error + string" where
  "yosys_import_sources self =
     (case yosys_reads self of Inl e \<Rightarrow> Inl e | Inr reads \<Rightarrow> Inr (join ''\<newline>'' reads))"

section \<open>Files\<close>

text \<open>
  Modelled from the spec: \<^verbatim>\<open>tools.write_to_file\<close> belongs to another module. The
  specification treats it as the file-system write utility that stores the given contents,
  byte for byte, under the given name; the file system is a map from file names to contents.
\<close>

type_synonym files = "string \<rightharpoonup> string"

definition write_to_file :: "string \<Rightarrow> string \<Rightarrow> files \<Rightarrow> files" where
  "write_to_file name contents fs = fs(name \<mapsto> contents)"

section \<open>Constraints\<close>

text \<open>
  \<^verbatim>\<open>build_io_constraints\<close> hands the constraint tables to \<^verbatim>\<open>_build_pdc\<close> (imported from
  another module, not modelled) and returns the name and the format label of the
  constraint file.
\<close>

definition build_io_constraints :: "toolchain \<Rightarrow> string \<times> string" where
  "build_io_constraints self = (build_name self @ ''.pdc'', ''PDC'')"

section \<open>The synthesis script\<close>

text \<open>The keyword arguments of the \<^verbatim>\<open>format\<close> call in \<^verbatim>\<open>build_project\<close>.\<close>

definition yosys_kwargs :: "toolchain \<Rightarrow> string \<Rightarrow> (string \<times> string) list" where
  "yosys_kwargs self read_files =
     [(''build_name'', build_name self),
      (''nwl'', if nowidelut self then ''-nowidelut'' else ''''),
      (''abc'', if abc9 self then ''-abc9'' else ''''),
      (''read_files'', read_files)]"

text \<open>
  The body of the loop of \<^verbatim>\<open>build_project\<close>: for one template line the arguments are
  evaluated (\<^verbatim>\<open>_yosys_import_sources\<close> is called again for every line) and the line is
  formatted.
\<close>

definition build_project_line :: "toolchain \<Rightarrow> string \<Rightarrow> py_error + string" where
  "build_project_line self l =
     (case yosys_import_sources self of
        Inl e \<Rightarrow> Inl e
      | Inr read_files \<Rightarrow> format_py l [] (yosys_kwargs self read_files))"

fun build_project_loop :: "toolchain \<Rightarrow> string list \<Rightarrow> string list \<Rightarrow> py_error + string list" where
  "build_project_loop self ys [] = Inr ys"
| "build_project_loop self ys (l # ls) =
     (case build_project_line self l of
        Inl e \<Rightarrow> Inl e
      | Inr r \<Rightarrow> build_project_loop self (ys @ [r]) ls)"

definition build_project :: "toolchain \<Rightarrow> files \<Rightarrow> py_error + files" where
  "build_project self fs =
     (case build_project_loop self [] (yosys_template self) of
        Inl e \<Rightarrow> Inl e
      | Inr ys \<Rightarrow> Inr (write_to_file (build_name self @ ''.ys'') (join ''\<newline>'' ys) fs))"

section \<open>The build driver script\<close>

text \<open>
  The host: \<^verbatim>\<open>sys.platform\<close>, the revision string that \<^verbatim>\<open>tools.get_litex_git_revision\<close>
  returns (opaque), \<^verbatim>\<open>shutil.which\<close> as the search path resolves names, and the outcome of
  \<^verbatim>\<open>subprocess.call\<close> for an argument vector: the exit status of the child, or the exception
  raised when it cannot be spawned.
\<close>

record host =
  sys_platform :: string
  git_revision :: string
  which :: "string \<Rightarrow> string option"
  subprocess_call :: "string list \<Rightarrow> py_error + int"

definition windows_family :: "host \<Rightarrow> bool" where
  "windows_family h = (sys_platform h \<in> set [''win32'', ''cygwin''])"

definition script_ext :: "host \<Rightarrow> string" where
  "script_ext h = (if windows_family h then ''.bat'' else ''.sh'')"

definition script_header :: "host \<Rightarrow> string" where
  "script_header h =
     (if windows_family h
      then ''@echo off\<newline>rem Autogenerated by LiteX / git: '' @ git_revision h @ ''\<newline>\<newline>''
      else ''# Autogenerated by LiteX / git: '' @ git_revision h @ ''\<newline>set -e\<newline>'')"

definition fail_stmt :: "host \<Rightarrow> string" where
  "fail_stmt h = (if windows_family h then '' || exit /b'' else '''')"

text \<open>The keyword arguments of the \<^verbatim>\<open>format\<close> call in \<^verbatim>\<open>build_script\<close>.\<close>

definition build_kwargs :: "host \<Rightarrow> toolchain \<Rightarrow> (string \<times> string) list" where
  "build_kwargs h self =
     [(''build_name'', build_name self),
      (''device'', device (platform self) @ (if es_device self then ''ES'' else '''')),
      (''timefailarg'', if \<not> timingstrict self then ''--timing-allow-fail'' else ''''),
      (''ignoreloops'', if ignoreloops self then ''--ignore-loops'' else ''''),
      (''fail_stmt'', fail_stmt h),
      (''seed'', str_int (seed self))]"

text \<open>The body of the loop of \<^verbatim>\<open>build_script\<close>: one template line, formatted.\<close>

definition build_script_line :: "host \<Rightarrow> toolchain \<Rightarrow> string \<Rightarrow> py_error + string" where
  "build_script_line h self s =
     (let s_fail = s @ ''{fail_stmt}\<newline>'' in format_py s_fail [] (build_kwargs h self))"

fun build_script_loop :: "host \<Rightarrow> toolchain \<Rightarrow> string \<Rightarrow> string list \<Rightarrow> py_error + string" where
  "build_script_loop h self script_contents [] = Inr script_contents"
| "build_script_loop h self script_contents (s # ss) =
     (case build_script_line h self s of
        Inl e \<Rightarrow> Inl e
      | Inr r \<Rightarrow> build_script_loop h self (script_contents @ r) ss)"

text \<open>\<^verbatim>\<open>build_script\<close> returns the name of the script it wrote.\<close>

definition build_script :: "host \<Rightarrow> toolchain \<Rightarrow> files \<Rightarrow> py_error + (string \<times> files)" where
  "build_script h self fs =
     (case build_script_loop h self (script_header h) (build_template self) of
        Inl e \<Rightarrow> Inl e
      | Inr script_contents \<Rightarrow>
          (let script_file = ''build_'' @ build_name self @ script_ext h in
           Inr (script_file, write_to_file script_file script_contents fs)))"

section \<open>Running the script\<close>

definition missing_toolchain_msg :: string where
  "missing_toolchain_msg =
     ''Unable to find Yosys/Nextpnr toolchain, please:\<newline>'' @
     ''- Add Yosys/Nextpnr toolchain to your $PATH.''"

definition script_failed_msg :: string where
  "script_failed_msg = ''Error occured during Yosys/Nextpnr's script execution.''"

text \<open>
  \<^verbatim>\<open>run_script\<close> returns nothing; the model gives its outcome together with the argument
  vectors handed to \<^verbatim>\<open>subprocess.call\<close>, in call order.
\<close>

definition shell :: "host \<Rightarrow> string list" where
  "shell h = (if windows_family h then [''cmd'', ''/c''] else [''bash''])"

definition run_script :: "host \<Rightarrow> string \<Rightarrow> (py_error + unit) \<times> string list list" where
  "run_script h script =
     (if which h ''yosys'' = None \<or> which h ''nextpnr-nexus'' = None
      then (Inl (OSError missing_toolchain_msg), [])
      else (case subprocess_call h (shell h @ [script]) of
              Inl e \<Rightarrow> (Inl e, [shell h @ [script]])
            | Inr status \<Rightarrow>
                if status \<noteq> 0 then (Inl (OSError script_failed_msg), [shell h @ [script]])
                else (Inr (), [shell h @ [script]])))"

section \<open>Notions used to state the properties\<close>

text \<open>
  The number of positions of a text at which a pattern starts. For the flags counted below,
  which cannot overlap themselves, this is \<^verbatim>\<open>text.count(pattern)\<close>, and it is positive
  exactly when \<^verbatim>\<open>pattern in text\<close>.
\<close>

fun count_occ :: "string \<Rightarrow> string \<Rightarrow> nat" where
  "count_occ p [] = (if p = [] then 1 else 0)"
| "count_occ p (c # cs) = (if prefix p (c # cs) then 1 else 0) + count_occ p cs"

text \<open>The first line of a text: everything before the first line break.\<close>

definition first_line :: "string \<Rightarrow> string" where
  "first_line s = takeWhile (\<lambda>c. c \<noteq> CHR 0x0A) s"

text \<open>A text without braces cannot hold a placeholder.\<close>

definition brace_free :: "string \<Rightarrow> bool" where
  "brace_free s = (CHR ''{'' \<notin> set s \<and> CHR ''}'' \<notin> set s)"

text \<open>
  The read directive that the specification expects for one source, given the include
  flags: \<^verbatim>\<open>read_verilog -sv\<close> for SystemVerilog, \<^verbatim>\<open>read_<dialect>\<close> otherwise.
\<close>

definition read_directive :: "string \<Rightarrow> source \<Rightarrow> string" where
  "read_directive includes s =
     ''read_'' @ (if language s = ''systemverilog'' then ''verilog -sv'' else language s) @
     includes @ '' '' @ filename s"

definition include_flags :: "string list \<Rightarrow> string" where
  "include_flags paths = concat (map (\<lambda>path. '' -I'' @ path) paths)"

text \<open>
  The output artifacts of a build, by name: the synthesis script that \<^verbatim>\<open>build_project\<close>
  writes, the constraint file that \<^verbatim>\<open>build_io_constraints\<close> names, the report, netlist,
  assembly and bitstream files that the commands of the build template name, and the driver
  script that \<^verbatim>\<open>build_script\<close> writes.
\<close>

definition artifact_paths :: "host \<Rightarrow> toolchain \<Rightarrow> string set" where
  "artifact_paths h self =
     {build_name self @ ''.ys'', build_name self @ ''.rpt'', build_name self @ ''.pdc'',
      build_name self @ ''.json'', build_name self @ ''.fasm'', build_name self @ ''.bit'',
      (''build_'' @ build_name self) @ script_ext h}"

text \<open>
  The commands that the specification expects in the two scripts, written out with the
  build parameters in place: the synthesis command with its two optional flags, the six
  lines of the synthesis script, the place-and-route command with its device, its two
  optional flags and its seed, and the three commands of the build pipeline. The templates
  of the source are compared with them below.
\<close>

definition synth_command :: "toolchain \<Rightarrow> string" where
  "synth_command self =
     ''synth_nexus -flatten '' @ (if nowidelut self then ''-nowidelut'' else '''') @ '' '' @
     (if abc9 self then ''-abc9'' else '''') @ '' -json '' @ build_name self @ ''.json -top '' @
     build_name self"

definition synthesis_lines :: "toolchain \<Rightarrow> string list" where
  \<open>synthesis_lines self =
    [''verilog_defaults -push'',
     ''verilog_defaults -add -defer'',
     join ''\<newline>''
       (map (read_directive (include_flags (verilog_include_paths (platform self))))
          (sources (platform self))),
     ''verilog_defaults -pop'',
     ''attrmap -tocase keep -imap keep="true" keep=1 -imap keep="false" keep=0 -remove keep=0'',
     synth_command self]\<close>

definition pnr_command :: "toolchain \<Rightarrow> string" where
  "pnr_command self =
     ''nextpnr-nexus --json '' @ build_name self @ ''.json --pdc '' @ build_name self @
     ''.pdc --fasm '' @ build_name self @ ''.fasm     --device '' @
     device (platform self) @ (if es_device self then ''ES'' else '''') @ '' '' @
     (if timingstrict self then '''' else ''--timing-allow-fail'') @ '' '' @
     (if ignoreloops self then ''--ignore-loops'' else '''') @ '' --seed '' @ str_int (seed self)"

definition build_commands :: "toolchain \<Rightarrow> string list" where
  "build_commands self =
    [''yosys -l '' @ build_name self @ ''.rpt '' @ build_name self @ ''.ys'',
     pnr_command self,
     ''prjoxide pack '' @ build_name self @ ''.fasm '' @ build_name self @ ''.bit'']"

text \<open>
  A named placeholder within the modelled part of the format language: a field name that
  is not empty, is not a position, and holds no brace and none of the characters that
  start a conversion, a format specification or an attribute or index access.
\<close>

definition plain_char :: "char \<Rightarrow> bool" where
  "plain_char c = (c \<noteq> CHR ''{'' \<and> c \<noteq> CHR ''}'' \<and> \<not> special_char c)"

definition plain_field :: "string \<Rightarrow> bool" where
  "plain_field k = (k \<noteq> [] \<and> \<not> list_all is_digit k \<and> list_all plain_char k)"

section \<open>Concrete builds\<close>

text \<open>
  A platform with a Verilog and a SystemVerilog source and one include path, a freshly
  initialised toolchain with the default options of \<^verbatim>\<open>build\<close> for a given build name, and
  a host on which every tool is found and every child process exits with a given status.
\<close>

definition demo_platform :: platform where
  "demo_platform =
     \<lparr>device = ''LIFCL-40-9BG400C'',
      sources = [\<lparr>filename = ''a.v'', language = ''verilog'', library = ''work'', copy = [False]\<rparr>,
                 \<lparr>filename = ''b.sv'', language = ''systemverilog'', library = ''work'', copy = [False]\<rparr>],
      verilog_include_paths = [''inc'']\<rparr>"

definition demo_toolchain :: "string \<Rightarrow> toolchain" where
  "demo_toolchain name =
     init \<lparr>yosys_template = [], build_template = [], build_name = name, nowidelut = False,
           abc9 = False, timingstrict = False, ignoreloops = False, seed = 1,
           es_device = False, platform = demo_platform\<rparr>"

definition demo_host :: "string \<Rightarrow> int \<Rightarrow> host" where
  "demo_host sys status =
     \<lparr>sys_platform = sys, git_revision = ''abc1234'',
      which = (\<lambda>n. Some (''/usr/bin/'' @ n)),
      subprocess_call = (\<lambda>argv. Inr status)\<rparr>"

text \<open>A host whose search path holds the synthesizer but not the place-and-route tool.\<close>

definition demo_host_no_pnr :: host where
  "demo_host_no_pnr =
     \<lparr>sys_platform = ''linux'', git_revision = ''abc1234'',
      which = (\<lambda>n. if n = ''yosys'' then Some ''/usr/bin/yosys'' else None),
      subprocess_call = (\<lambda>argv. Inr 0)\<rparr>"

section \<open>The formatter on the templates of the source\<close>

lemmas fmt_defs = format_py_def emit_def get_field_def special_char_def is_digit_def

lemma format_read:
  "format_py ''read_{}{} {}'' [a, b, c] [] = Inr (''read_'' @ a @ b @ '' '' @ c)"
  by (simp add: fmt_defs)

lemma init_simps [simp]:
  "yosys_template (init self) = yosys_template_const"
  "build_template (init self) = build_template_const"
  "build_name (init self) = build_name self"
  "nowidelut (init self) = nowidelut self"
  "abc9 (init self) = abc9 self"
  "timingstrict (init self) = timingstrict self"
  "ignoreloops (init self) = ignoreloops self"
  "seed (init self) = seed self"
  "es_device (init self) = es_device self"
  "platform (init self) = platform self"
  by (simp_all add: init_def)

lemma commands_init [simp]:
  "synth_command (init self) = synth_command self"
  "synthesis_lines (init self) = synthesis_lines self"
  "pnr_command (init self) = pnr_command self"
  "build_commands (init self) = build_commands self"
  by (simp_all add: synth_command_def synthesis_lines_def pnr_command_def build_commands_def)

subsection \<open>Source import\<close>

lemma includes_loop_eq: "includes_loop acc paths = acc @ include_flags paths"
  by (induction paths arbitrary: acc) (simp_all add: include_flags_def)

lemma reads_loop_eq: "reads_loop inc acc ss = Inr (acc @ map (read_directive inc) ss)"
  by (induction ss arbitrary: acc) (simp_all add: format_read read_directive_def Let_def)

lemma yosys_import_sources_eq:
  "yosys_import_sources self =
     Inr (join ''\<newline>''
            (map (read_directive (include_flags (verilog_include_paths (platform self))))
               (sources (platform self))))"
  by (simp add: yosys_import_sources_def yosys_reads_def reads_loop_eq includes_loop_eq)

subsection \<open>The synthesis script\<close>

lemma build_project_line_eq:
  "build_project_line self l =
     format_py l [] (yosys_kwargs self (synthesis_lines self ! 2))"
  by (simp add: build_project_line_def yosys_import_sources_eq synthesis_lines_def)

lemma yosys_template_lines:
  "map (build_project_line self) yosys_template_const = map Inr (synthesis_lines self)"
  by (simp add: yosys_template_const_def build_project_line_eq)
    (simp add: fmt_defs yosys_kwargs_def synthesis_lines_def synth_command_def)

lemma build_project_loop_eq:
  "map (build_project_line self) ls = map Inr rs \<Longrightarrow>
   build_project_loop self ys ls = Inr (ys @ rs)"
proof (induction ls arbitrary: ys rs)
  case Nil
  then show ?case by simp
next
  case (Cons l ls)
  then obtain r rs' where rs: "rs = r # rs'" by (cases rs) auto
  with Cons.prems have "build_project_line self l = Inr r"
    and "map (build_project_line self) ls = map Inr rs'" by simp_all
  with Cons.IH [of rs' "ys @ [r]"] rs show ?case by simp
qed

lemma build_project_lines:
  "build_project_loop (init self) [] yosys_template_const = Inr (synthesis_lines self)"
  using yosys_template_lines [of "init self"]
    build_project_loop_eq [of "init self" yosys_template_const "synthesis_lines self" "[]"]
  by simp

lemma build_project_eq:
  "build_project (init self) fs =
     Inr (write_to_file (build_name self @ ''.ys'') (join ''\<newline>'' (synthesis_lines self)) fs)"
  by (simp add: build_project_def build_project_lines)

subsection \<open>The build driver script\<close>

lemma build_template_lines:
  "map (build_script_line h self) build_template_const =
     map Inr (map (\<lambda>l. l @ fail_stmt h @ ''\<newline>'') (build_commands self))"
  by (simp add: build_template_const_def build_script_line_def)
    (simp add: fmt_defs build_kwargs_def build_commands_def pnr_command_def)

lemma build_template_plain_lines:
  "map (\<lambda>s. format_py s [] (build_kwargs h self)) build_template_const =
     map Inr (build_commands self)"
  by (simp add: build_template_const_def)
    (simp add: fmt_defs build_kwargs_def build_commands_def pnr_command_def)

lemma build_script_loop_eq:
  "map (build_script_line h self) ss = map Inr rs \<Longrightarrow>
   build_script_loop h self acc ss = Inr (acc @ concat rs)"
proof (induction ss arbitrary: acc rs)
  case Nil
  then show ?case by simp
next
  case (Cons s ss)
  then obtain r rs' where rs: "rs = r # rs'" by (cases rs) auto
  with Cons.prems have "build_script_line h self s = Inr r"
    and "map (build_script_line h self) ss = map Inr rs'" by simp_all
  with Cons.IH [of rs' "acc @ r"] rs show ?case by simp
qed


lemma build_script_eq:
  "build_script h (init self) fs =
     Inr (''build_'' @ build_name self @ script_ext h,
          write_to_file (''build_'' @ build_name self @ script_ext h)
            (script_header h @
             concat (map (\<lambda>l. l @ fail_stmt h @ ''\<newline>'') (build_commands self))) fs)"
proof -
  have "build_script_loop h (init self) (script_header h) build_template_const =
          Inr (script_header h @
               concat (map (\<lambda>l. l @ fail_stmt h @ ''\<newline>'') (build_commands self)))"
    using build_template_lines [of h "init self"] by (intro build_script_loop_eq) simp
  then show ?thesis
    by (simp add: build_script_def Let_def)
qed

section \<open>Counting a flag in a command\<close>

text \<open>
  A character that the pattern does not contain splits the count: no occurrence of the
  pattern lies across it.
\<close>

lemma count_occ_split:
  assumes "c \<notin> set p" "p \<noteq> []"
  shows "count_occ p (xs @ c # r) = count_occ p xs + count_occ p r"
proof (induction xs)
  case Nil
  from assms have "\<not> prefix p (c # r)" by (cases p) auto
  then show ?case using assms by simp
next
  case (Cons x xs)
  have "prefix p (x # xs @ c # r) \<longleftrightarrow> prefix p (x # xs)"
  proof
    assume "prefix p (x # xs @ c # r)"
    then have "prefix p ((x # xs) @ c # r)" by simp
    then show "prefix p (x # xs)"
      unfolding prefix_append using assms(1) by (auto simp: prefix_Cons)
  next
    assume "prefix p (x # xs)"
    then show "prefix p (x # xs @ c # r)"
      by (metis append_Cons prefix_prefix)
  qed
  with Cons show ?case by simp
qed

lemma count_occ_absent:
  assumes "c \<in> set p" "c \<notin> set s"
  shows "count_occ p s = 0"
  using assms
proof (induction s)
  case Nil
  then show ?case by auto
next
  case (Cons x xs)
  have "\<not> prefix p (x # xs)"
  proof
    assume "prefix p (x # xs)"
    then have "set p \<subseteq> set (x # xs)" by (rule set_mono_prefix)
    with Cons.prems show False by auto
  qed
  with Cons show ?case by simp
qed

subsection \<open>The decimal digits of the seed\<close>

lemma digit_char_digit: "d < 10 \<Longrightarrow> is_digit (digit_char d)"
  unfolding digit_char_def is_digit_def by (rule nth_mem) simp

lemma str_nat_digits: "list_all is_digit (str_nat n)"
proof (induction n rule: str_nat.induct)
  case (1 n)
  show ?case
  proof (cases "n < 10")
    case True
    have "str_nat n = [digit_char n]" using True by (subst str_nat.simps) simp
    then show ?thesis using digit_char_digit [OF True] by simp
  next
    case False
    have "n mod 10 < 10" by simp
    then have d: "is_digit (digit_char (n mod 10))" by (rule digit_char_digit)
    have "str_nat n = str_nat (n div 10) @ [digit_char (n mod 10)]"
      using False by (subst str_nat.simps) simp
    with d 1 [OF False] show ?thesis by simp
  qed
qed

lemma str_nat_nonempty: "str_nat n \<noteq> []"
  by (subst str_nat.simps) simp

lemma str_int_chars:
  assumes "c \<in> set (str_int i)"
  shows "c = CHR ''-'' \<or> is_digit c"
proof (cases "i < 0")
  case True
  with assms have "c = CHR ''-'' \<or> c \<in> set (str_nat (nat (- i)))"
    by (simp add: str_int_def)
  then show ?thesis using str_nat_digits [of "nat (- i)"] by (auto simp: list_all_iff)
next
  case False
  with assms have "c \<in> set (str_nat (nat i))"
    by (simp add: str_int_def)
  then show ?thesis using str_nat_digits [of "nat i"] by (auto simp: list_all_iff)
qed

lemma count_occ_str_int:
  assumes "c \<in> set p" "c \<noteq> CHR ''-''" "\<not> is_digit c"
  shows "count_occ p (str_int i) = 0"
proof (rule count_occ_absent [OF assms(1)])
  show "c \<notin> set (str_int i)"
    using str_int_chars [of c i] assms(2,3) by blast
qed

subsection \<open>The flags of the two commands\<close>

lemma count_synth_command:
  "count_occ ''-nowidelut'' (synth_command self) =
     (if nowidelut self then 1 else 0) + 2 * count_occ ''-nowidelut'' (build_name self)"
  "count_occ ''-abc9'' (synth_command self) =
     (if abc9 self then 1 else 0) + 2 * count_occ ''-abc9'' (build_name self)"
  by (simp_all add: synth_command_def count_occ_split)

lemma count_pnr_command:
  "count_occ ''--timing-allow-fail'' (pnr_command self) =
     (if timingstrict self then 0 else 1) + 3 * count_occ ''--timing-allow-fail'' (build_name self) +
     count_occ ''--timing-allow-fail'' (device (platform self))"
  "count_occ ''--ignore-loops'' (pnr_command self) =
     (if ignoreloops self then 1 else 0) + 3 * count_occ ''--ignore-loops'' (build_name self) +
     count_occ ''--ignore-loops'' (device (platform self))"
proof -
  have t: "count_occ ''--timing-allow-fail'' (str_int (seed self)) = 0"
    by (rule count_occ_str_int [of "CHR ''t''"]) (simp_all add: is_digit_def)
  have i: "count_occ ''--ignore-loops'' (str_int (seed self)) = 0"
    by (rule count_occ_str_int [of "CHR ''i''"]) (simp_all add: is_digit_def)
  show "count_occ ''--timing-allow-fail'' (pnr_command self) =
     (if timingstrict self then 0 else 1) + 3 * count_occ ''--timing-allow-fail'' (build_name self) +
     count_occ ''--timing-allow-fail'' (device (platform self))"
    using t by (simp add: pnr_command_def count_occ_split)
  show "count_occ ''--ignore-loops'' (pnr_command self) =
     (if ignoreloops self then 1 else 0) + 3 * count_occ ''--ignore-loops'' (build_name self) +
     count_occ ''--ignore-loops'' (device (platform self))"
    using i by (simp add: pnr_command_def count_occ_split)
qed

lemma count_occ_fail_stmt:
  assumes "CHR '' '' \<notin> set p" "CHR 0x0A \<notin> set p" "p \<noteq> []"
    and "count_occ p ''|| exit /b'' = 0"
  shows "count_occ p (l @ fail_stmt h @ ''\<newline>'') = count_occ p l"
proof (cases "windows_family h")
  case True
  have "count_occ p (l @ CHR '' '' # ''|| exit /b'' @ [CHR 0x0A]) =
          count_occ p l + count_occ p (''|| exit /b'' @ [CHR 0x0A])"
    using assms(1,3) by (rule count_occ_split)
  also have "count_occ p (''|| exit /b'' @ [CHR 0x0A]) = count_occ p ''|| exit /b'' + count_occ p []"
    using assms(2,3) by (rule count_occ_split)
  finally show ?thesis
    using True assms(3,4) by (simp add: fail_stmt_def)
next
  case False
  have "count_occ p (l @ [CHR 0x0A]) = count_occ p l + count_occ p []"
    using assms(2,3) by (rule count_occ_split)
  then show ?thesis
    using False assms(3) by (simp add: fail_stmt_def)
qed

lemma suffix_last: "suffix p l \<Longrightarrow> p \<noteq> [] \<Longrightarrow> last l = last p"
  by (auto simp: suffix_def)

lemma str_int_nonempty: "str_int i \<noteq> []"
  by (simp add: str_int_def str_nat_nonempty)

lemma pnr_command_last: "last (pnr_command self) = last (str_int (seed self))"
  by (simp add: pnr_command_def str_int_nonempty)

lemma build_commands_no_fail_suffix:
  "list_all (\<lambda>l. \<not> suffix '' || exit /b'' l) (build_commands self)"
proof -
  have "last (str_int (seed self)) \<in> set (str_int (seed self))"
    by (simp add: str_int_nonempty)
  then have "last (str_int (seed self)) \<noteq> CHR ''b''"
    using str_int_chars [of "last (str_int (seed self))" "seed self"]
    by (auto simp: is_digit_def)
  then have "\<not> suffix '' || exit /b'' (pnr_command self)"
    using suffix_last [of "'' || exit /b''" "pnr_command self"] pnr_command_last [of self]
    by auto
  moreover have "\<not> suffix '' || exit /b'' (''yosys -l '' @ build_name self @ ''.rpt '' @ build_name self @ ''.ys'')"
    using suffix_last [of "'' || exit /b''" "''yosys -l '' @ build_name self @ ''.rpt '' @ build_name self @ ''.ys''"]
    by auto
  moreover have "\<not> suffix '' || exit /b'' (''prjoxide pack '' @ build_name self @ ''.fasm '' @ build_name self @ ''.bit'')"
    using suffix_last [of "'' || exit /b''" "''prjoxide pack '' @ build_name self @ ''.fasm '' @ build_name self @ ''.bit''"]
    by auto
  ultimately show ?thesis
    by (simp add: build_commands_def)
qed



section \<open>A placeholder without a value\<close>

lemma emit_simps [simp]:
  "emit v (Inl e) = Inl e"
  "emit v (Inr s) = Inr (v @ s)"
  by (simp_all add: emit_def)

lemma emit_emit: "emit v (emit w r) = emit (v @ w) r"
  by (cases r) simp_all

lemma emit_Nil: "emit [] r = r"
  by (cases r) simp_all

lemma emit_eq_Inr: "emit v r = Inr out \<longleftrightarrow> (\<exists>s. r = Inr s \<and> out = v @ s)"
  by (cases r) auto

lemma format_go_field:
  assumes "list_all plain_char k"
  shows "format_go (InField n) i args kw (k @ CHR ''}'' # rest) =
           (case get_field (n @ k) i args kw of
              Inl e \<Rightarrow> Inl e
            | Inr (v, j) \<Rightarrow> emit v (format_go Text j args kw rest))"
  using assms
proof (induction k arbitrary: n)
  case Nil
  then show ?case by simp
next
  case (Cons c k)
  then have "plain_char c" and k: "list_all plain_char k"
    by simp_all
  then have "c \<noteq> CHR ''{''" "c \<noteq> CHR ''}''" "\<not> special_char c"
    by (simp_all add: plain_char_def)
  with Cons.IH [OF k, of "n @ [c]"] show ?case by simp
qed

lemma format_go_placeholder:
  assumes "plain_field k"
  shows "format_go Opened i args kw (k @ CHR ''}'' # rest) =
           (case get_field k i args kw of
              Inl e \<Rightarrow> Inl e
            | Inr (v, j) \<Rightarrow> emit v (format_go Text j args kw rest))"
proof -
  from assms obtain c k' where k: "k = c # k'" and pc: "plain_char c" and pk: "list_all plain_char k'"
    by (cases k) (auto simp: plain_field_def)
  from pc have "c \<noteq> CHR ''{''" "c \<noteq> CHR ''}''" "\<not> special_char c"
    by (simp_all add: plain_char_def)
  then show ?thesis
    using format_go_field [OF pk, of "[c]" i args kw rest] k by simp
qed

lemma get_field_missing:
  assumes "plain_field k" "map_of kw k = None"
  shows "get_field k i args kw = Inl (KeyError k)"
  using assms by (simp add: get_field_def plain_field_def)

lemma format_go_append:
  assumes "format_go st i [] kw pre = Inr out"
  shows "format_go st i [] kw (pre @ t) = emit out (format_go Text i [] kw t)"
  using assms
proof (induction st i "[] :: string list" kw pre arbitrary: out rule: format_go.induct)
  case (1 i kw)
  then show ?case by (simp add: emit_Nil)
next
  case (5 i kw c cs)
  then show ?case
    by (auto simp: emit_eq_Inr emit_emit split: if_splits)
next
  case (6 i kw c cs)
  then show ?case
    by (auto simp: emit_eq_Inr emit_emit get_field_def split: if_splits)
next
  case (7 i kw c cs)
  then show ?case
    by (auto simp: emit_eq_Inr emit_emit split: if_splits)
next
  case (8 n i kw c cs)
  show ?case
  proof (cases "c = CHR ''}''")
    case True
    with 8 obtain v s where g: "get_field n i [] kw = Inr (v, i)"
      and s: "format_go Text i [] kw cs = Inr s" and out: "out = v @ s"
      by (auto simp: emit_eq_Inr get_field_def split: if_splits sum.splits option.splits)
    from 8(1) [OF True _ _ s, of "(v, i)" v] g
    have "format_go Text i [] kw (cs @ t) = emit s (format_go Text i [] kw t)" by simp
    with True g out show ?thesis by (simp add: emit_emit)
  next
    case False
    with 8 show ?thesis by (auto split: if_splits)
  qed
qed simp_all

lemma format_py_missing_value:
  assumes "format_py pre [] kw = Inr out" "plain_field k" "map_of kw k = None"
  shows "format_py (pre @ ''{'' @ k @ ''}'' @ post) [] kw = Inl (KeyError k)"
proof -
  have "format_go Text 0 [] kw (pre @ CHR ''{'' # k @ CHR ''}'' # post) =
          emit out (format_go Text 0 [] kw (CHR ''{'' # k @ CHR ''}'' # post))"
    using assms(1) unfolding format_py_def by (rule format_go_append)
  also have "\<dots> = Inl (KeyError k)"
    by (simp add: format_go_placeholder [OF assms(2)] get_field_missing [OF assms(2,3)])
  finally show ?thesis by (simp add: format_py_def)
qed

section \<open>Texts without braces\<close>

lemma brace_free_append [simp]: "brace_free (xs @ ys) \<longleftrightarrow> brace_free xs \<and> brace_free ys"
  by (auto simp: brace_free_def)

lemma brace_free_Cons [simp]:
  "brace_free (c # cs) \<longleftrightarrow> c \<noteq> CHR ''{'' \<and> c \<noteq> CHR ''}'' \<and> brace_free cs"
  by (auto simp: brace_free_def)

lemma brace_free_Nil [simp]: "brace_free []"
  by (simp add: brace_free_def)

lemma brace_free_str_int [simp]: "brace_free (str_int i)"
  using str_int_chars [of "CHR ''{''" i] str_int_chars [of "CHR ''}''" i]
  by (auto simp: brace_free_def is_digit_def)

lemma brace_free_synthesis:
  assumes "brace_free (build_name self)" "brace_free (synthesis_lines self ! 2)"
  shows "brace_free (join ''\<newline>'' (synthesis_lines self))"
  using assms by (simp add: synthesis_lines_def synth_command_def)

lemma brace_free_script:
  assumes "brace_free (build_name self)" "brace_free (device (platform self))"
    "brace_free (git_revision h)"
  shows "brace_free (script_header h @
           concat (map (\<lambda>l. l @ fail_stmt h @ ''\<newline>'') (build_commands self)))"
  using assms
  by (simp add: script_header_def fail_stmt_def build_commands_def pnr_command_def)

section \<open>Artifact names\<close>

lemma artifact_paths_rev_neq:
  assumes "build_name a \<noteq> build_name b"
    and "p \<in> artifact_paths h a" and "q \<in> artifact_paths h' b"
  shows "rev p \<noteq> rev q"
  using assms
  by (auto simp: artifact_paths_def script_ext_def simp del: rev_is_rev_conv split: if_splits)

section \<open>Properties of the toolchain\<close>

subsection \<open>Missing tools\<close>

text \<open>
  C1. On every host, whatever its platform and its search path: when \<^verbatim>\<open>yosys\<close> or
  \<^verbatim>\<open>nextpnr-nexus\<close> is not found, \<^verbatim>\<open>run_script\<close> raises an \<^verbatim>\<open>OSError\<close> whose message names
  the Yosys/Nextpnr toolchain and tells the operator to add it to \<^verbatim>\<open>$PATH\<close>, and
  \<^verbatim>\<open>subprocess.call\<close> has not been called.
\<close>

theorem run_script_missing_toolchain:
  assumes "which h ''yosys'' = None \<or> which h ''nextpnr-nexus'' = None"
  shows "run_script h script =
           (Inl (OSError ''Unable to find Yosys/Nextpnr toolchain, please:\<newline>- Add Yosys/Nextpnr toolchain to your $PATH.''), []) \<and>
         0 < count_occ ''Yosys'' missing_toolchain_msg \<and>
         0 < count_occ ''Nextpnr'' missing_toolchain_msg \<and>
         0 < count_occ ''Add Yosys/Nextpnr toolchain to your $PATH'' missing_toolchain_msg"
proof -
  have "run_script h script = (Inl (OSError missing_toolchain_msg), [])"
    using assms by (auto simp: run_script_def)
  then show ?thesis
    by (simp add: missing_toolchain_msg_def)
qed

text \<open>The place-and-route tool alone is missing: the error is raised, nothing is spawned.\<close>

theorem run_script_missing_toolchain_witness:
  "which demo_host_no_pnr ''yosys'' \<noteq> None \<and>
   which demo_host_no_pnr ''nextpnr-nexus'' = None \<and>
   run_script demo_host_no_pnr ''build_top.sh'' =
     (Inl (OSError ''Unable to find Yosys/Nextpnr toolchain, please:\<newline>- Add Yosys/Nextpnr toolchain to your $PATH.''), [])"
  using run_script_missing_toolchain [of demo_host_no_pnr "''build_top.sh''"]
  by (simp add: demo_host_no_pnr_def)

subsection \<open>The exit status of the script\<close>

text \<open>
  C2, as the code has it. When both tools are found and the child process exits with a
  status, \<^verbatim>\<open>run_script\<close> has called \<^verbatim>\<open>subprocess.call\<close> once, with the interpreter of the
  dialect and the script; a status other than 0 raises an \<^verbatim>\<open>OSError\<close> with one fixed
  message, the same for every script, and status 0 returns without an error.
\<close>

theorem run_script_exit_status:
  assumes "which h ''yosys'' \<noteq> None" and "which h ''nextpnr-nexus'' \<noteq> None"
    and "subprocess_call h (shell h @ [script]) = Inr status"
  shows "run_script h script =
           (if status \<noteq> 0
            then Inl (OSError ''Error occured during Yosys/Nextpnr's script execution.'')
            else Inr (),
            [shell h @ [script]])"
  using assms by (simp add: run_script_def script_failed_msg_def)

theorem run_script_exit_status_witness:
  "which (demo_host ''linux'' 0) ''yosys'' \<noteq> None \<and>
   which (demo_host ''linux'' 0) ''nextpnr-nexus'' \<noteq> None \<and>
   subprocess_call (demo_host ''linux'' 0) (shell (demo_host ''linux'' 0) @ [''build_top.sh'']) = Inr 0 \<and>
   run_script (demo_host ''linux'' 0) ''build_top.sh'' = (Inr (), [[''bash'', ''build_top.sh'']])"
  using run_script_exit_status [of "demo_host ''linux'' 0" "''build_top.sh''" 0]
  by (simp add: demo_host_def shell_def windows_family_def)

text \<open>
  C2 as stated asks for an error that refers to the script by name. The script
  \<^verbatim>\<open>build_top.sh\<close> exits with status 1: the message of the error does not contain its name.
\<close>

theorem run_script_error_omits_script_name:
  "run_script (demo_host ''linux'' 1) ''build_top.sh'' =
     (Inl (OSError ''Error occured during Yosys/Nextpnr's script execution.''),
      [[''bash'', ''build_top.sh'']]) \<and>
   count_occ ''build_top.sh'' ''Error occured during Yosys/Nextpnr's script execution.'' = 0"
  by (simp add: run_script_def script_failed_msg_def shell_def windows_family_def demo_host_def)

subsection \<open>Source import\<close>

text \<open>
  C3. \<^verbatim>\<open>_yosys_import_sources\<close> never fails; the list of read directives has one directive
  per source, in the order of the sources; the directive of a source whose language is
  \<^verbatim>\<open>systemverilog\<close> is \<^verbatim>\<open>read_verilog -sv\<close>, and any other language string stands in the
  directive as it is; the result is the directives joined by line breaks.
\<close>

theorem import_sources_in_order:
  "yosys_reads self =
     Inr (map (\<lambda>s. ''read_'' @
                   (if language s = ''systemverilog'' then ''verilog -sv'' else language s) @
                   include_flags (verilog_include_paths (platform self)) @ '' '' @ filename s)
            (sources (platform self))) \<and>
   yosys_import_sources self =
     Inr (join ''\<newline>''
            (map (\<lambda>s. ''read_'' @
                   (if language s = ''systemverilog'' then ''verilog -sv'' else language s) @
                   include_flags (verilog_include_paths (platform self)) @ '' '' @ filename s)
               (sources (platform self))))"
proof -
  have "read_directive inc = (\<lambda>s. ''read_'' @
          (if language s = ''systemverilog'' then ''verilog -sv'' else language s) @
          inc @ '' '' @ filename s)" for inc
    by (rule ext) (simp add: read_directive_def)
  then show ?thesis
    by (simp add: yosys_import_sources_def yosys_reads_def reads_loop_eq includes_loop_eq)
qed

text \<open>The example of the specification: a Verilog file, then a SystemVerilog file.\<close>

theorem import_sources_in_order_witness:
  "yosys_reads (demo_toolchain ''top'') =
     Inr [''read_verilog -Iinc a.v'', ''read_verilog -sv -Iinc b.sv''] \<and>
   yosys_import_sources (demo_toolchain ''top'') =
     Inr ''read_verilog -Iinc a.v\<newline>read_verilog -sv -Iinc b.sv''"
  using import_sources_in_order [of "demo_toolchain ''top''"]
  by (simp add: demo_toolchain_def demo_platform_def init_def include_flags_def)

subsection \<open>The flags of the synthesis command\<close>

text \<open>
  C4, as the code has it. For every combination of the build options and every build name
  in which the texts \<^verbatim>\<open>-nowidelut\<close> and \<^verbatim>\<open>-abc9\<close> do not occur: the last of the six rendered
  lines of the synthesis script, the \<^verbatim>\<open>synth_nexus\<close> command, contains \<^verbatim>\<open>-nowidelut\<close> once
  when \<^verbatim>\<open>nowidelut\<close> is set and not at all otherwise, and \<^verbatim>\<open>-abc9\<close> once when \<^verbatim>\<open>abc9\<close> is set
  and not at all otherwise.
\<close>

theorem synth_flags_exactly_once:
  assumes "count_occ ''-nowidelut'' (build_name self) = 0"
    and "count_occ ''-abc9'' (build_name self) = 0"
  shows "\<exists>rs l. build_project_loop (init self) [] (yosys_template (init self)) = Inr (rs @ [l]) \<and>
           length rs = 5 \<and>
           count_occ ''-nowidelut'' l = (if nowidelut self then 1 else 0) \<and>
           count_occ ''-abc9'' l = (if abc9 self then 1 else 0)"
proof -
  have "synthesis_lines self = butlast (synthesis_lines self) @ [synth_command self]"
    by (simp add: synthesis_lines_def)
  moreover have "length (butlast (synthesis_lines self)) = 5"
    by (simp add: synthesis_lines_def)
  ultimately show ?thesis
    using build_project_lines [of self] count_synth_command [of self] assms
    by (intro exI [of _ "butlast (synthesis_lines self)"] exI [of _ "synth_command self"]) simp
qed

theorem synth_flags_exactly_once_witness:
  "count_occ ''-nowidelut'' ''top'' = 0 \<and> count_occ ''-abc9'' ''top'' = 0 \<and>
   (\<exists>rs l. build_project_loop (build_options True False False False 1 False (demo_toolchain ''top'')) []
              yosys_template_const = Inr (rs @ [l]) \<and>
            length rs = 5 \<and> count_occ ''-nowidelut'' l = 1 \<and> count_occ ''-abc9'' l = 0)"
  using synth_flags_exactly_once [of "build_options True False False False 1 False (demo_toolchain ''top'')"]
  by (simp add: build_options_def demo_toolchain_def init_def)

text \<open>
  C4 as stated speaks of every build. With the build name \<^verbatim>\<open>soc-abc9\<close> and \<^verbatim>\<open>abc9\<close> not
  set, the synthesis command contains \<^verbatim>\<open>-abc9\<close> twice, in the two places of the build name.
\<close>

theorem synth_flag_in_build_name:
  "abc9 (demo_toolchain ''soc-abc9'') = False \<and>
   build_project_line (demo_toolchain ''soc-abc9'') (last (yosys_template (demo_toolchain ''soc-abc9''))) =
     Inr ''synth_nexus -flatten   -json soc-abc9.json -top soc-abc9'' \<and>
   count_occ ''-abc9'' ''synth_nexus -flatten   -json soc-abc9.json -top soc-abc9'' = 2"
  by (simp add: demo_toolchain_def init_def yosys_template_const_def build_project_line_eq)
    (simp add: fmt_defs yosys_kwargs_def)

subsection \<open>The flags of the place-and-route command\<close>

text \<open>
  C5, as the code has it. For every combination of the build options, on either dialect,
  and for every build name and device name in which the texts \<^verbatim>\<open>--timing-allow-fail\<close> and
  \<^verbatim>\<open>--ignore-loops\<close> do not occur: the second rendered line of the build script, the
  \<^verbatim>\<open>nextpnr-nexus\<close> command, contains \<^verbatim>\<open>--timing-allow-fail\<close> not at all when
  \<^verbatim>\<open>timingstrict\<close> is set and once otherwise, and \<^verbatim>\<open>--ignore-loops\<close> once when
  \<^verbatim>\<open>ignoreloops\<close> is set and not at all otherwise.
\<close>

theorem pnr_flags_follow_options:
  assumes "count_occ ''--timing-allow-fail'' (build_name self) = 0"
    and "count_occ ''--timing-allow-fail'' (device (platform self)) = 0"
    and "count_occ ''--ignore-loops'' (build_name self) = 0"
    and "count_occ ''--ignore-loops'' (device (platform self)) = 0"
  shows "\<exists>l. build_script_line h (init self) (build_template (init self) ! 1) = Inr l \<and>
           count_occ ''--timing-allow-fail'' l = (if timingstrict self then 0 else 1) \<and>
           count_occ ''--ignore-loops'' l = (if ignoreloops self then 1 else 0)"
proof -
  have "map (build_script_line h (init self)) build_template_const ! 1 =
          Inr (pnr_command self @ fail_stmt h @ ''\<newline>'')"
    unfolding build_template_lines by (simp add: build_commands_def)
  then have "build_script_line h (init self) (build_template (init self) ! 1) =
          Inr (pnr_command self @ fail_stmt h @ ''\<newline>'')"
    by (simp add: build_template_const_def)
  moreover have "count_occ ''--timing-allow-fail'' (pnr_command self @ fail_stmt h @ ''\<newline>'') =
          count_occ ''--timing-allow-fail'' (pnr_command self)"
    by (rule count_occ_fail_stmt) simp_all
  moreover have "count_occ ''--ignore-loops'' (pnr_command self @ fail_stmt h @ ''\<newline>'') =
          count_occ ''--ignore-loops'' (pnr_command self)"
    by (rule count_occ_fail_stmt) simp_all
  ultimately show ?thesis
    using count_pnr_command [of self] assms by simp
qed

theorem pnr_flags_follow_options_witness:
  "count_occ ''--timing-allow-fail'' ''top'' = 0 \<and>
   count_occ ''--timing-allow-fail'' ''LIFCL-40-9BG400C'' = 0 \<and>
   count_occ ''--ignore-loops'' ''top'' = 0 \<and>
   count_occ ''--ignore-loops'' ''LIFCL-40-9BG400C'' = 0 \<and>
   (\<exists>l. build_script_line (demo_host ''linux'' 0)
            (build_options False False True True 7 False (demo_toolchain ''top''))
            (build_template_const ! 1) = Inr l \<and>
        count_occ ''--timing-allow-fail'' l = 0 \<and> count_occ ''--ignore-loops'' l = 1)"
  using pnr_flags_follow_options [of "build_options False False True True 7 False (demo_toolchain ''top'')"
      "demo_host ''linux'' 0"]
  by (simp add: build_options_def demo_toolchain_def demo_platform_def init_def)

text \<open>
  C5 as stated speaks of every build. With the build name \<^verbatim>\<open>top--ignore-loops\<close> and
  \<^verbatim>\<open>ignoreloops\<close> not set, the place-and-route command contains \<^verbatim>\<open>--ignore-loops\<close> three
  times, in the three places of the build name.
\<close>

theorem pnr_flag_in_build_name:
  "ignoreloops (demo_toolchain ''top--ignore-loops'') = False \<and>
   build_script_line (demo_host ''linux'' 0) (demo_toolchain ''top--ignore-loops'')
       (build_template (demo_toolchain ''top--ignore-loops'') ! 1) =
     Inr ''nextpnr-nexus --json top--ignore-loops.json --pdc top--ignore-loops.pdc --fasm top--ignore-loops.fasm     --device LIFCL-40-9BG400C --timing-allow-fail  --seed 1\<newline>'' \<and>
   count_occ ''--ignore-loops''
     ''nextpnr-nexus --json top--ignore-loops.json --pdc top--ignore-loops.pdc --fasm top--ignore-loops.fasm     --device LIFCL-40-9BG400C --timing-allow-fail  --seed 1\<newline>'' = 3"
  by (simp add: demo_toolchain_def init_def build_template_const_def build_script_line_def)
    (simp add: fmt_defs build_kwargs_def demo_platform_def demo_host_def fail_stmt_def
      windows_family_def str_int_def str_nat.simps digit_char_def)

subsection \<open>The two dialects of the build script\<close>

text \<open>
  C6. The three lines of the build template always render. When \<^verbatim>\<open>sys.platform\<close> is
  \<^verbatim>\<open>win32\<close> or \<^verbatim>\<open>cygwin\<close>, the script is written as \<^verbatim>\<open>build_<name>.bat\<close> and holds, after
  its header, every rendered line followed by \<^verbatim>\<open> || exit /b\<close> and a line break. On any
  other platform it is written as \<^verbatim>\<open>build_<name>.sh\<close>, its header ends with the line
  \<^verbatim>\<open>set -e\<close>, every rendered line is followed by the empty fragment and a line break, and
  no rendered line ends with \<^verbatim>\<open> || exit /b\<close>.
\<close>

theorem build_script_dialect:
  "\<exists>ls. map (\<lambda>s. format_py s [] (build_kwargs h (init self))) (build_template (init self)) = map Inr ls \<and>
     (if sys_platform h = ''win32'' \<or> sys_platform h = ''cygwin''
      then build_script h (init self) fs =
             Inr (''build_'' @ build_name self @ ''.bat'',
                  write_to_file (''build_'' @ build_name self @ ''.bat'')
                    (script_header h @ concat (map (\<lambda>l. l @ '' || exit /b'' @ ''\<newline>'') ls)) fs) \<and>
           fail_stmt h = '' || exit /b''
      else build_script h (init self) fs =
             Inr (''build_'' @ build_name self @ ''.sh'',
                  write_to_file (''build_'' @ build_name self @ ''.sh'')
                    (script_header h @ concat (map (\<lambda>l. l @ '''' @ ''\<newline>'') ls)) fs) \<and>
           fail_stmt h = '''' \<and>
           script_header h = ''# Autogenerated by LiteX / git: '' @ git_revision h @ ''\<newline>set -e\<newline>'' \<and>
           list_all (\<lambda>l. \<not> suffix '' || exit /b'' l) ls)"
proof -
  have "map (\<lambda>s. format_py s [] (build_kwargs h (init self))) (build_template (init self)) =
          map Inr (build_commands self)"
    using build_template_plain_lines [of h "init self"] by simp
  moreover have "windows_family h \<longleftrightarrow> sys_platform h = ''win32'' \<or> sys_platform h = ''cygwin''"
    by (simp add: windows_family_def)
  ultimately show ?thesis
    using build_script_eq [of h self fs] build_commands_no_fail_suffix [of self]
    by (intro exI [of _ "build_commands self"])
      (simp add: script_ext_def fail_stmt_def script_header_def)
qed

text \<open>The shell script of a build named \<^verbatim>\<open>top\<close> with the default options.\<close>

theorem build_script_dialect_witness:
  "build_script (demo_host ''linux'' 0) (demo_toolchain ''top'') Map.empty =
     Inr (''build_top.sh'',
          [''build_top.sh'' \<mapsto>
             ''# Autogenerated by LiteX / git: abc1234\<newline>set -e\<newline>yosys -l top.rpt top.ys\<newline>nextpnr-nexus --json top.json --pdc top.pdc --fasm top.fasm     --device LIFCL-40-9BG400C --timing-allow-fail  --seed 1\<newline>prjoxide pack top.fasm top.bit\<newline>''])"
proof -
  have i: "init (demo_toolchain ''top'') = demo_toolchain ''top''"
    by (simp add: demo_toolchain_def init_def)
  have l: "map (\<lambda>s. format_py s [] (build_kwargs (demo_host ''linux'' 0) (demo_toolchain ''top'')))
             (build_template (demo_toolchain ''top'')) =
           map Inr [''yosys -l top.rpt top.ys'',
                    ''nextpnr-nexus --json top.json --pdc top.pdc --fasm top.fasm     --device LIFCL-40-9BG400C --timing-allow-fail  --seed 1'',
                    ''prjoxide pack top.fasm top.bit'']"
    by (simp add: demo_toolchain_def init_def build_template_const_def)
      (simp add: fmt_defs build_kwargs_def demo_platform_def str_int_def str_nat.simps digit_char_def)
  have p: "\<not> (sys_platform (demo_host ''linux'' 0) = ''win32'' \<or>
              sys_platform (demo_host ''linux'' 0) = ''cygwin'')"
    by (simp add: demo_host_def)
  have n: "build_name (demo_toolchain ''top'') = ''top''"
    by (simp add: demo_toolchain_def)
  have h: "script_header (demo_host ''linux'' 0) = ''# Autogenerated by LiteX / git: abc1234\<newline>set -e\<newline>''"
    by (simp add: script_header_def windows_family_def demo_host_def)
  from build_script_dialect [of "demo_host ''linux'' 0" "demo_toolchain ''top''" Map.empty]
  obtain ls where
    "map (\<lambda>s. format_py s [] (build_kwargs (demo_host ''linux'' 0) (demo_toolchain ''top'')))
       (build_template (demo_toolchain ''top'')) = map Inr ls"
    and "build_script (demo_host ''linux'' 0) (demo_toolchain ''top'') Map.empty =
           Inr (''build_'' @ build_name (demo_toolchain ''top'') @ ''.sh'',
                write_to_file (''build_'' @ build_name (demo_toolchain ''top'') @ ''.sh'')
                  (script_header (demo_host ''linux'' 0) @
                   concat (map (\<lambda>l. l @ '''' @ ''\<newline>'') ls)) Map.empty)"
    unfolding i using p by auto
  with l have "ls = [''yosys -l top.rpt top.ys'',
                    ''nextpnr-nexus --json top.json --pdc top.pdc --fasm top.fasm     --device LIFCL-40-9BG400C --timing-allow-fail  --seed 1'',
                    ''prjoxide pack top.fasm top.bit'']"
    and "build_script (demo_host ''linux'' 0) (demo_toolchain ''top'') Map.empty =
           Inr (''build_'' @ build_name (demo_toolchain ''top'') @ ''.sh'',
                write_to_file (''build_'' @ build_name (demo_toolchain ''top'') @ ''.sh'')
                  (script_header (demo_host ''linux'' 0) @
                   concat (map (\<lambda>l. l @ '''' @ ''\<newline>'') ls)) Map.empty)"
    by (auto simp: map_eq_Cons_conv)
  then show ?thesis
    by (simp add: n h write_to_file_def)
qed

subsection \<open>Every placeholder is substituted\<close>

text \<open>
  C7. For every combination of build options, build name, sources and host, both templates
  render without an error: the synthesis script is the six expected lines and the build
  script is its header and the three expected commands, with the value of each parameter in
  the place of each placeholder; when the parameters hold no brace, neither does the text
  of either script. A named placeholder that has no value among the keyword arguments makes
  \<^verbatim>\<open>format\<close> raise \<^verbatim>\<open>KeyError\<close>, whatever follows it in the template; it is never copied to
  the output.
\<close>

theorem templates_fully_substituted:
  "(\<exists>rf. yosys_import_sources (init self) = Inr rf \<and>
         build_project (init self) fs =
           Inr (write_to_file (build_name self @ ''.ys'')
                  (join ''\<newline>'' (synthesis_lines self)) fs) \<and>
         (brace_free (build_name self) \<and> brace_free rf \<longrightarrow>
            brace_free (join ''\<newline>'' (synthesis_lines self)))) \<and>
   build_script h (init self) fs =
     Inr (''build_'' @ build_name self @ script_ext h,
          write_to_file (''build_'' @ build_name self @ script_ext h)
            (script_header h @
             concat (map (\<lambda>l. l @ fail_stmt h @ ''\<newline>'') (build_commands self))) fs) \<and>
   (brace_free (build_name self) \<and> brace_free (device (platform self)) \<and>
    brace_free (git_revision h) \<longrightarrow>
      brace_free (script_header h @
        concat (map (\<lambda>l. l @ fail_stmt h @ ''\<newline>'') (build_commands self)))) \<and>
   (format_py pre [] kw = Inr out \<and> plain_field k \<and> map_of kw k = None \<longrightarrow>
      format_py (pre @ ''{'' @ k @ ''}'' @ post) [] kw = Inl (KeyError k))"
proof -
  have "yosys_import_sources (init self) = Inr (synthesis_lines self ! 2)"
    by (simp add: yosys_import_sources_eq synthesis_lines_def)
  then show ?thesis
    using brace_free_synthesis [of self] brace_free_script [of self h]
      format_py_missing_value [of pre kw out k post]
    by (simp add: build_project_eq build_script_eq)
qed

theorem templates_fully_substituted_witness:
  "brace_free ''top'' \<and> brace_free ''LIFCL-40-9BG400C'' \<and> brace_free ''abc1234'' \<and>
   brace_free ''read_verilog -Iinc a.v\<newline>read_verilog -sv -Iinc b.sv'' \<and>
   yosys_import_sources (demo_toolchain ''top'') =
     Inr ''read_verilog -Iinc a.v\<newline>read_verilog -sv -Iinc b.sv'' \<and>
   brace_free (join ''\<newline>'' (synthesis_lines (demo_toolchain ''top''))) \<and>
   brace_free (script_header (demo_host ''linux'' 0) @
     concat (map (\<lambda>l. l @ fail_stmt (demo_host ''linux'' 0) @ ''\<newline>'')
       (build_commands (demo_toolchain ''top'')))) \<and>
   format_py ''-flatten {nwl}'' [] (yosys_kwargs (demo_toolchain ''top'') []) = Inr ''-flatten '' \<and>
   plain_field ''lut'' \<and> map_of (yosys_kwargs (demo_toolchain ''top'') []) ''lut'' = None \<and>
   format_py (''-flatten {nwl}'' @ ''{'' @ ''lut'' @ ''}'' @ '' -top'') []
     (yosys_kwargs (demo_toolchain ''top'') []) = Inl (KeyError ''lut'')"
proof -
  have i: "yosys_import_sources (demo_toolchain ''top'') =
     Inr ''read_verilog -Iinc a.v\<newline>read_verilog -sv -Iinc b.sv''"
    by (simp add: yosys_import_sources_eq demo_toolchain_def demo_platform_def init_def
      read_directive_def include_flags_def)
  have f: "format_py ''-flatten {nwl}'' [] (yosys_kwargs (demo_toolchain ''top'') []) = Inr ''-flatten ''"
    by (simp add: fmt_defs yosys_kwargs_def demo_toolchain_def init_def)
  have p: "plain_field ''lut''"
    by (simp add: plain_field_def plain_char_def special_char_def is_digit_def)
  have m: "map_of (yosys_kwargs (demo_toolchain ''top'') []) ''lut'' = None"
    by (simp add: yosys_kwargs_def)
  have d: "device (platform (demo_toolchain ''top'')) = ''LIFCL-40-9BG400C''"
    "build_name (demo_toolchain ''top'') = ''top''"
    "git_revision (demo_host ''linux'' 0) = ''abc1234''"
    "init (demo_toolchain ''top'') = demo_toolchain ''top''"
    by (simp_all add: demo_toolchain_def demo_platform_def demo_host_def init_def)
  show ?thesis
    using templates_fully_substituted [of "demo_toolchain ''top''" Map.empty "demo_host ''linux'' 0"
        "''-flatten {nwl}''" "yosys_kwargs (demo_toolchain ''top'') []" "''-flatten ''" "''lut''" "'' -top''"]
      i f p m
    by (simp add: d)
qed

subsection \<open>Artifact names\<close>

text \<open>
  C8. The names of the output artifacts depend on the build name alone (and, for the
  extension of the driver script, on the dialect of the host); the constraint file that
  \<^verbatim>\<open>build_io_constraints\<close> names, the file that \<^verbatim>\<open>build_project\<close> writes and the file that
  \<^verbatim>\<open>build_script\<close> writes and returns are among them; and two builds with different build
  names, on any two hosts, have no artifact name in common.
\<close>

theorem artifact_paths_disjoint:
  assumes "build_name a \<noteq> build_name b"
  shows "artifact_paths h a \<inter> artifact_paths h' b = {} \<and>
         artifact_paths h a =
           {build_name a @ ''.ys'', build_name a @ ''.rpt'', build_name a @ ''.pdc'',
            build_name a @ ''.json'', build_name a @ ''.fasm'', build_name a @ ''.bit'',
            ''build_'' @ build_name a @ script_ext h} \<and>
         fst (build_io_constraints a) \<in> artifact_paths h a \<and>
         (\<exists>p contents. build_project (init a) fs = Inr (write_to_file p contents fs) \<and>
                       p \<in> artifact_paths h a) \<and>
         (\<exists>p fs'. build_script h (init a) fs = Inr (p, fs') \<and> p \<in> artifact_paths h a)"
proof (intro conjI)
  show "artifact_paths h a \<inter> artifact_paths h' b = {}"
  proof (rule ccontr)
    assume "artifact_paths h a \<inter> artifact_paths h' b \<noteq> {}"
    then obtain p where "p \<in> artifact_paths h a" and "p \<in> artifact_paths h' b"
      by auto
    with assms have "rev p \<noteq> rev p"
      by (rule artifact_paths_rev_neq)
    then show False by simp
  qed
  show "artifact_paths h a =
           {build_name a @ ''.ys'', build_name a @ ''.rpt'', build_name a @ ''.pdc'',
            build_name a @ ''.json'', build_name a @ ''.fasm'', build_name a @ ''.bit'',
            ''build_'' @ build_name a @ script_ext h}"
    by (simp add: artifact_paths_def)
  show "fst (build_io_constraints a) \<in> artifact_paths h a"
    by (simp add: build_io_constraints_def artifact_paths_def)
  have ys: "build_name a @ ''.ys'' \<in> artifact_paths h a"
    by (simp add: artifact_paths_def)
  show "\<exists>p contents. build_project (init a) fs = Inr (write_to_file p contents fs) \<and>
                     p \<in> artifact_paths h a"
    unfolding build_project_eq using ys by (intro exI conjI) (rule refl)
  have sc: "''build_'' @ build_name a @ script_ext h \<in> artifact_paths h a"
    by (simp add: artifact_paths_def)
  show "\<exists>p fs'. build_script h (init a) fs = Inr (p, fs') \<and> p \<in> artifact_paths h a"
    unfolding build_script_eq using sc by (intro exI conjI) (rule refl)
qed

theorem artifact_paths_disjoint_witness:
  "build_name (demo_toolchain ''top'') \<noteq> build_name (demo_toolchain ''soc'') \<and>
   artifact_paths (demo_host ''linux'' 0) (demo_toolchain ''top'') \<inter>
     artifact_paths (demo_host ''win32'' 0) (demo_toolchain ''soc'') = {} \<and>
   artifact_paths (demo_host ''linux'' 0) (demo_toolchain ''top'') =
     {''top.ys'', ''top.rpt'', ''top.pdc'', ''top.json'', ''top.fasm'', ''top.bit'', ''build_top.sh''}"
proof -
  have n: "build_name (demo_toolchain ''top'') \<noteq> build_name (demo_toolchain ''soc'')"
    by (simp add: demo_toolchain_def)
  have b: "build_name (demo_toolchain ''top'') = ''top''"
    by (simp add: demo_toolchain_def)
  have e: "script_ext (demo_host ''linux'' 0) = ''.sh''"
    by (simp add: script_ext_def windows_family_def demo_host_def)
  note d = artifact_paths_disjoint [OF n, of "demo_host ''linux'' 0" "demo_host ''win32'' 0" Map.empty]
  from d have "artifact_paths (demo_host ''linux'' 0) (demo_toolchain ''top'') \<inter>
          artifact_paths (demo_host ''win32'' 0) (demo_toolchain ''soc'') = {}"
    by (rule conjunct1)
  moreover from d have "artifact_paths (demo_host ''linux'' 0) (demo_toolchain ''top'') =
           {build_name (demo_toolchain ''top'') @ ''.ys'', build_name (demo_toolchain ''top'') @ ''.rpt'',
            build_name (demo_toolchain ''top'') @ ''.pdc'', build_name (demo_toolchain ''top'') @ ''.json'',
            build_name (demo_toolchain ''top'') @ ''.fasm'', build_name (demo_toolchain ''top'') @ ''.bit'',
            ''build_'' @ build_name (demo_toolchain ''top'') @ script_ext (demo_host ''linux'' 0)}"
    by (rule conjunct1 [OF conjunct2])
  ultimately show ?thesis
    using n by (simp add: b e)
qed

subsection \<open>The provenance comment\<close>

text \<open>
  C9, as the code has it. On either dialect the build script is written, and it begins
  with a header that holds the provenance comment with the revision string: on the shell
  dialect the comment \<^verbatim>\<open># Autogenerated by LiteX / git: <revision>\<close> is the first line; on the
  batch dialect the first line is \<^verbatim>\<open>@echo off\<close> and the comment
  \<^verbatim>\<open>rem Autogenerated by LiteX / git: <revision>\<close> is the second line.
\<close>

theorem build_script_provenance:
  "\<exists>contents.
     build_script h (init self) fs =
       Inr (''build_'' @ build_name self @ script_ext h,
            write_to_file (''build_'' @ build_name self @ script_ext h) contents fs) \<and>
     prefix (if windows_family h
             then ''@echo off\<newline>rem Autogenerated by LiteX / git: '' @ git_revision h @ ''\<newline>''
             else ''# Autogenerated by LiteX / git: '' @ git_revision h @ ''\<newline>'') contents"
  unfolding build_script_eq
  by (intro exI [of _ "script_header h @
        concat (map (\<lambda>l. l @ fail_stmt h @ ''\<newline>'') (build_commands self))"])
    (simp add: script_header_def)

theorem build_script_provenance_witness:
  "\<exists>contents.
     build_script (demo_host ''linux'' 0) (demo_toolchain ''top'') Map.empty =
       Inr (''build_top.sh'', [''build_top.sh'' \<mapsto> contents]) \<and>
     prefix ''# Autogenerated by LiteX / git: abc1234\<newline>'' contents"
proof -
  have i: "init (demo_toolchain ''top'') = demo_toolchain ''top''"
    by (simp add: demo_toolchain_def init_def)
  have d: "build_name (demo_toolchain ''top'') = ''top''"
    "script_ext (demo_host ''linux'' 0) = ''.sh''"
    "\<not> windows_family (demo_host ''linux'' 0)"
    "git_revision (demo_host ''linux'' 0) = ''abc1234''"
    by (simp_all add: demo_toolchain_def script_ext_def windows_family_def demo_host_def)
  show ?thesis
    using build_script_provenance [of "demo_host ''linux'' 0" "demo_toolchain ''top''" Map.empty]
    by (simp add: i d write_to_file_def)
qed

text \<open>
  C9 as stated has the comment as the first line on either dialect. On \<^verbatim>\<open>win32\<close> the
  first line of the script is \<^verbatim>\<open>@echo off\<close>.
\<close>

theorem batch_script_first_line:
  "build_script (demo_host ''win32'' 0) (demo_toolchain ''top'') Map.empty =
     Inr (''build_top.bat'',
          [''build_top.bat'' \<mapsto>
             ''@echo off\<newline>rem Autogenerated by LiteX / git: abc1234\<newline>\<newline>yosys -l top.rpt top.ys || exit /b\<newline>nextpnr-nexus --json top.json --pdc top.pdc --fasm top.fasm     --device LIFCL-40-9BG400C --timing-allow-fail  --seed 1 || exit /b\<newline>prjoxide pack top.fasm top.bit || exit /b\<newline>'']) \<and>
   first_line ''@echo off\<newline>rem Autogenerated by LiteX / git: abc1234\<newline>\<newline>yosys -l top.rpt top.ys || exit /b\<newline>nextpnr-nexus --json top.json --pdc top.pdc --fasm top.fasm     --device LIFCL-40-9BG400C --timing-allow-fail  --seed 1 || exit /b\<newline>prjoxide pack top.fasm top.bit || exit /b\<newline>''
     = ''@echo off''"
proof -
  have "build_script (demo_host ''win32'' 0) (demo_toolchain ''top'') Map.empty =
     Inr (''build_top.bat'',
          [''build_top.bat'' \<mapsto>
             ''@echo off\<newline>rem Autogenerated by LiteX / git: abc1234\<newline>\<newline>yosys -l top.rpt top.ys || exit /b\<newline>nextpnr-nexus --json top.json --pdc top.pdc --fasm top.fasm     --device LIFCL-40-9BG400C --timing-allow-fail  --seed 1 || exit /b\<newline>prjoxide pack top.fasm top.bit || exit /b\<newline>''])"
    unfolding demo_toolchain_def build_script_eq
    by (simp add: script_ext_def script_header_def fail_stmt_def windows_family_def demo_host_def
        build_commands_def pnr_command_def demo_platform_def write_to_file_def
        str_int_def str_nat.simps digit_char_def)
  then show ?thesis
    by (simp add: first_line_def)
qed

subsection \<open>One class for both errors\<close>

text \<open>
  C10. The error that \<^verbatim>\<open>run_script\<close> raises when a tool is missing and the error that it
  raises when the script exits with a status other than 0 are both of the class
  \<^verbatim>\<open>OSError\<close>; they differ in their messages only.
\<close>

theorem run_script_errors_same_class:
  assumes "which h ''yosys'' = None \<or> which h ''nextpnr-nexus'' = None"
    and "which h' ''yosys'' \<noteq> None" and "which h' ''nextpnr-nexus'' \<noteq> None"
    and "subprocess_call h' (shell h' @ [script']) = Inr status" and "status \<noteq> 0"
  shows "\<exists>m m'. fst (run_script h script) = Inl (OSError m) \<and>
                fst (run_script h' script') = Inl (OSError m') \<and>
                exc_type (OSError m) = exc_type (OSError m') \<and> m \<noteq> m'"
proof -
  have "fst (run_script h script) = Inl (OSError missing_toolchain_msg)"
    using assms(1) by (auto simp: run_script_def)
  moreover have "fst (run_script h' script') = Inl (OSError script_failed_msg)"
    using assms(2-5) by (auto simp: run_script_def)
  moreover have "missing_toolchain_msg \<noteq> script_failed_msg"
    by (simp add: missing_toolchain_msg_def script_failed_msg_def)
  ultimately show ?thesis by simp
qed

theorem run_script_errors_same_class_witness:
  "which demo_host_no_pnr ''nextpnr-nexus'' = None \<and>
   which (demo_host ''win32'' 1) ''yosys'' \<noteq> None \<and>
   which (demo_host ''win32'' 1) ''nextpnr-nexus'' \<noteq> None \<and>
   subprocess_call (demo_host ''win32'' 1) (shell (demo_host ''win32'' 1) @ [''build_top.bat'']) = Inr 1 \<and>
   (\<exists>m m'. fst (run_script demo_host_no_pnr ''build_top.sh'') = Inl (OSError m) \<and>
            fst (run_script (demo_host ''win32'' 1) ''build_top.bat'') = Inl (OSError m') \<and>
            exc_type (OSError m) = exc_type (OSError m') \<and> m \<noteq> m')"
  using run_script_errors_same_class [of demo_host_no_pnr "demo_host ''win32'' 1" "''build_top.bat''" 1 "''build_top.sh''"]
  by (simp add: demo_host_no_pnr_def demo_host_def)

end
